theory Spec2Isabelle
  imports Main "HOL-Library.Word" "HOL-Library.Sublist"
begin

section \<open>Client application state (the App component)\<close>

text \<open>
  The second part of \<^verbatim>\<open>src/api/auth/google/url.ts\<close> is the React component \<^verbatim>\<open>App\<close>.
  Its \<^verbatim>\<open>useState\<close> cells are the fields of one record, and every handler is a function
  from the state it was started in to the state after all its updates have been applied,
  together with the network requests it issued.

  The prompt is a JavaScript string whose characters \<^verbatim>\<open>trim()\<close> inspects, so it is a
  list of UTF-16 code units. All other texts are opaque to the handlers and are plain
  strings.
\<close>

type_synonym utf16 = "16 word list"

text \<open>The interface \<^verbatim>\<open>GeneratedImage\<close> (fields suffixed, \<^verbatim>\<open>id\<close> and \<^verbatim>\<open>prompt\<close> being taken).\<close>

record GeneratedImage =
  id_img :: string
  url_img :: string
  prompt_img :: utf16
  aspectRatio_img :: string
  timestamp_img :: int

text \<open>The union type of the \<^verbatim>\<open>aspectRatio\<close> state cell, and the string each member is.\<close>

datatype AspectRatio = Ratio_1_1 | Ratio_3_4 | Ratio_4_3 | Ratio_9_16 | Ratio_16_9

fun aspect_text :: "AspectRatio \<Rightarrow> string" where
  "aspect_text Ratio_1_1 = ''1:1''"
| "aspect_text Ratio_3_4 = ''3:4''"
| "aspect_text Ratio_4_3 = ''4:3''"
| "aspect_text Ratio_9_16 = ''9:16''"
| "aspect_text Ratio_16_9 = ''16:9''"

record app_state =
  prompt :: utf16
  aspectRatio :: AspectRatio
  isGenerating :: bool
  currentImage :: "GeneratedImage option"
  history :: "GeneratedImage list"
  error :: "string option"
  isSavingToGoogle :: bool
  isGoogleAuthenticated :: bool
  saveSuccess :: bool

subsection \<open>What the browser provides\<close>

text \<open>
  \<^verbatim>\<open>String.prototype.trim\<close> removes the code units of ECMAScript's WhiteSpace and
  LineTerminator productions from both ends: TAB, LF, VT, FF, CR, SPACE, NBSP, the
  Unicode space separators (category Zs), LS, PS and the byte order mark.
\<close>

definition is_js_whitespace :: "16 word \<Rightarrow> bool" where
  "is_js_whitespace c =
     (c \<in> set [0x0009, 0x000A, 0x000B, 0x000C, 0x000D, 0x0020, 0x00A0, 0x1680,
                0x2000, 0x2001, 0x2002, 0x2003, 0x2004, 0x2005, 0x2006, 0x2007,
                0x2008, 0x2009, 0x200A, 0x2028, 0x2029, 0x202F, 0x205F, 0x3000, 0xFEFF])"

definition trim :: "utf16 \<Rightarrow> utf16" where
  "trim s = rev (dropWhile is_js_whitespace (rev (dropWhile is_js_whitespace s)))"

text \<open>The operator \<^verbatim>\<open>a || b\<close> on a possibly undefined string: the empty string is falsy.\<close>

definition or_else :: "string option \<Rightarrow> string \<Rightarrow> string" where
  "or_else a b = (case a of None \<Rightarrow> b | Some x \<Rightarrow> if x = [] then b else x)"

text \<open>
  The body of \<^verbatim>\<open>POST /api/openrouter-generate\<close> and what \<^verbatim>\<open>await res.json()\<close> gives back.
  \<^verbatim>\<open>url\<close>, \<^verbatim>\<open>prompt\<close> and \<^verbatim>\<open>timestamp\<close> are read on status 200 only, \<^verbatim>\<open>error\<close> on every
  other status. \<^verbatim>\<open>Rejected m\<close> is a \<^verbatim>\<open>fetch\<close> or a \<^verbatim>\<open>res.json()\<close> that threw an error
  whose \<^verbatim>\<open>message\<close> is \<^verbatim>\<open>m\<close>.
\<close>

record generate_request =
  prompt_req :: utf16
  aspectRatio_req :: AspectRatio

record generate_result =
  url_res :: string
  prompt_res :: utf16
  timestamp_res :: int
  error_res :: "string option"

datatype fetch_outcome = Rejected "string option" | Replied nat generate_result

text \<open>
  \<^verbatim>\<open>random36\<close> is the string \<^verbatim>\<open>Math.random().toString(36)\<close> of the one draw that
  \<^verbatim>\<open>handleGenerate\<close> makes: \<^verbatim>\<open>0\<close> when the draw is 0, and otherwise \<^verbatim>\<open>0.\<close> followed by the
  base-36 digits of the fraction, as many as the draw has (the draw 0.5 is \<^verbatim>\<open>0.i\<close>,
  since 0.5 = 18/36 and \<^verbatim>\<open>i\<close> is the digit 18).
\<close>

record browser =
  fetch_generate :: "generate_request \<Rightarrow> fetch_outcome"
  random36 :: string

subsection \<open>The handlers\<close>

text \<open>\<^verbatim>\<open>Math.random().toString(36).substring(7)\<close>\<close>

definition new_id :: "browser \<Rightarrow> string" where
  "new_id env = drop 7 (random36 env)"

text \<open>The updater \<^verbatim>\<open>prev => [newImage, ...prev].slice(0, 20)\<close>.\<close>

definition push_history :: "GeneratedImage \<Rightarrow> GeneratedImage list \<Rightarrow> GeneratedImage list" where
  "push_history newImage prev = take 20 (newImage # prev)"

definition handleGenerate :: "browser \<Rightarrow> app_state \<Rightarrow> app_state \<times> generate_request list" where
  "handleGenerate env s =
     (if trim (prompt s) = [] then (s, [])
      else
        let rq = \<lparr>prompt_req = prompt s, aspectRatio_req = aspectRatio s\<rparr>;
            s1 = s\<lparr>isGenerating := True, error := None\<rparr>
        in (case fetch_generate env rq of
              Rejected m \<Rightarrow>
                (s1\<lparr>error := Some (or_else m ''Something went wrong during generation.''),
                    isGenerating := False\<rparr>, [rq])
            | Replied status result \<Rightarrow>
                if status \<noteq> 200 then
                  (s1\<lparr>error := Some (or_else
                         (Some (or_else (error_res result) ''Failed to generate image via OpenRouter''))
                         ''Something went wrong during generation.''),
                      isGenerating := False\<rparr>, [rq])
                else
                  let newImage = \<lparr>id_img = new_id env,
                                   url_img = url_res result,
                                   prompt_img = prompt_res result,
                                   aspectRatio_img = aspect_text (aspectRatio s),
                                   timestamp_img = timestamp_res result\<rparr>
                  in (s1\<lparr>currentImage := Some newImage,
                         history := push_history newImage (history s1),
                         isGenerating := False\<rparr>, [rq])))"

text \<open>
  \<^verbatim>\<open>deleteFromHistory\<close>: the filter on the history, and the displayed image reset when
  \<^verbatim>\<open>currentImage?.id === id\<close>.
\<close>

definition deleteFromHistory :: "string \<Rightarrow> app_state \<Rightarrow> app_state" where
  "deleteFromHistory i s =
     s\<lparr>history := filter (\<lambda>img. id_img img \<noteq> i) (history s),
       currentImage := (case currentImage s of
                          None \<Rightarrow> None
                        | Some img \<Rightarrow> if id_img img = i then None else Some img)\<rparr>"

section \<open>Server: JSON texts, URI components and cookies\<close>

text \<open>
  Server-side strings are byte strings (the UTF-8 encoding of the JavaScript string).
  A JSON value is \<^verbatim>\<open>null\<close>, a boolean, an integral number, a string, an array or an
  object (its own properties in order, keys distinct). \<^verbatim>\<open>undefined\<close> is \<open>None\<close>.
  Numbers are printed in decimal, as JavaScript prints integers below \<open>10\<^sup>2\<^sup>1\<close>
  (every timestamp is).
\<close>

datatype json = JNull | JBool bool | JNum int | JStr string | JArr "json list"
  | JObj "(string \<times> json) list"

type_synonym jsval = "json option"

subsection \<open>\<^verbatim>\<open>JSON.stringify\<close>\<close>

definition digit_char :: "nat \<Rightarrow> char" where
  "digit_char d = ''0123456789'' ! d"

fun digits :: "nat \<Rightarrow> string" where
  "digits n = (if n < 10 then [digit_char n]
               else digits (n div 10) @ [digit_char (n mod 10)])"

declare digits.simps [simp del]

definition int_text :: "int \<Rightarrow> string" where
  "int_text i = (if i < 0 then CHR ''-'' # digits (nat (- i)) else digits (nat i))"

definition lower_hex :: "nat \<Rightarrow> char" where
  "lower_hex d = ''0123456789abcdef'' ! d"

text \<open>QuoteJSONString: the two-character escapes, \<^verbatim>\<open>\u00xx\<close> for the other control characters.\<close>

definition json_escape :: "char \<Rightarrow> string" where
  "json_escape c =
     (if c = CHR 0x22 then [CHR 0x5C, CHR 0x22]
      else if c = CHR 0x5C then [CHR 0x5C, CHR 0x5C]
      else if c = CHR 0x08 then [CHR 0x5C, CHR ''b'']
      else if c = CHR 0x0C then [CHR 0x5C, CHR ''f'']
      else if c = CHR 0x0A then [CHR 0x5C, CHR ''n'']
      else if c = CHR 0x0D then [CHR 0x5C, CHR ''r'']
      else if c = CHR 0x09 then [CHR 0x5C, CHR ''t'']
      else if (of_char c :: nat) < 32 then
        [CHR 0x5C, CHR ''u'', CHR ''0'', CHR ''0'',
         lower_hex (of_char c div 16), lower_hex (of_char c mod 16)]
      else [c])"

definition json_quote :: "string \<Rightarrow> string" where
  "json_quote s = CHR 0x22 # concat (map json_escape s) @ [CHR 0x22]"

fun join_comma :: "string list \<Rightarrow> string" where
  "join_comma [] = []"
| "join_comma [x] = x"
| "join_comma (x # y # ys) = x @ CHR '','' # join_comma (y # ys)"

fun JSON_stringify :: "json \<Rightarrow> string" where
  "JSON_stringify JNull = ''null''"
| "JSON_stringify (JBool b) = (if b then ''true'' else ''false'')"
| "JSON_stringify (JNum n) = int_text n"
| "JSON_stringify (JStr s) = json_quote s"
| "JSON_stringify (JArr xs) = CHR ''['' # join_comma (map JSON_stringify xs) @ '']''"
| "JSON_stringify (JObj kvs) =
     CHR ''{'' # join_comma (map (\<lambda>kv. json_quote (fst kv) @ CHR '':'' # JSON_stringify (snd kv)) kvs)
       @ ''}''"

subsection \<open>\<^verbatim>\<open>JSON.parse\<close>: which texts it accepts\<close>

text \<open>
  The handlers hand the parsed value on without looking into it, so what matters of
  \<^verbatim>\<open>JSON.parse\<close> is whether it returns or throws a SyntaxError. The functions below
  recognise the JSON grammar (ECMA-404); each returns the text left after what it read.
\<close>

definition is_json_ws :: "char \<Rightarrow> bool" where
  "is_json_ws c = (c \<in> set [CHR 0x20, CHR 0x09, CHR 0x0A, CHR 0x0D])"

definition skip_ws :: "string \<Rightarrow> string" where
  "skip_ws cs = dropWhile is_json_ws cs"

definition is_digit :: "char \<Rightarrow> bool" where
  "is_digit c = (c \<in> set ''0123456789'')"

definition is_hex :: "char \<Rightarrow> bool" where
  "is_hex c = (c \<in> set ''0123456789abcdefABCDEF'')"

text \<open>The characters of a string after its opening quote, up to the closing quote.\<close>

fun json_string :: "string \<Rightarrow> string option" where
  "json_string [] = None"
| "json_string (c # cs) =
     (if c = CHR 0x22 then Some cs
      else if c = CHR 0x5C then
        (case cs of
           [] \<Rightarrow> None
         | e # r \<Rightarrow>
             if e \<in> set [CHR 0x22, CHR 0x5C, CHR ''/'', CHR ''b'', CHR ''f'', CHR ''n'',
                         CHR ''r'', CHR ''t'']
             then json_string r
             else if e = CHR ''u'' \<and> 4 \<le> length r \<and> list_all is_hex (take 4 r)
             then json_string (drop 4 r)
             else None)
      else if (of_char c :: nat) < 32 then None
      else json_string cs)"

text \<open>A number: an optional minus, an integer part without a leading zero, an optional
  fraction and an optional exponent.\<close>

definition json_fraction :: "string \<Rightarrow> string option" where
  "json_fraction cs =
     (case cs of
        [] \<Rightarrow> Some cs
      | c # r \<Rightarrow>
          if c = CHR ''.'' then
            (if takeWhile is_digit r = [] then None else Some (dropWhile is_digit r))
          else Some cs)"

definition json_exponent :: "string \<Rightarrow> string option" where
  "json_exponent cs =
     (case cs of
        [] \<Rightarrow> Some cs
      | c # r \<Rightarrow>
          if c = CHR ''e'' \<or> c = CHR ''E'' then
            (let r' = (case r of [] \<Rightarrow> r
                       | s # t \<Rightarrow> if s = CHR ''+'' \<or> s = CHR ''-'' then t else r)
             in if takeWhile is_digit r' = [] then None else Some (dropWhile is_digit r'))
          else Some cs)"

definition json_number :: "string \<Rightarrow> string option" where
  "json_number cs =
     (let a = (case cs of [] \<Rightarrow> cs | c # r \<Rightarrow> if c = CHR ''-'' then r else cs)
      in case a of
           [] \<Rightarrow> None
         | d # r \<Rightarrow>
             if is_digit d then
               (case json_fraction (if d = CHR ''0'' then r else dropWhile is_digit r) of
                  None \<Rightarrow> None
                | Some b \<Rightarrow> json_exponent b)
             else None)"

text \<open>
  Values, array elements and object members. The first argument bounds the nesting and
  the number of elements read; every call consumes a character, so the length of the
  text is enough.
\<close>

fun json_value :: "nat \<Rightarrow> string \<Rightarrow> string option"
  and json_elements :: "nat \<Rightarrow> string \<Rightarrow> string option"
  and json_members :: "nat \<Rightarrow> string \<Rightarrow> string option" where
  "json_value 0 cs = None"
| "json_value (Suc n) cs =
     (case skip_ws cs of
        [] \<Rightarrow> None
      | c # r \<Rightarrow>
          if c = CHR ''{'' then
            (case skip_ws r of
               [] \<Rightarrow> None
             | d # r' \<Rightarrow> if d = CHR ''}'' then Some r' else json_members n (d # r'))
          else if c = CHR ''['' then
            (case skip_ws r of
               [] \<Rightarrow> None
             | d # r' \<Rightarrow> if d = CHR '']'' then Some r' else json_elements n (d # r'))
          else if c = CHR 0x22 then json_string r
          else if take 4 (c # r) = ''true'' then Some (drop 4 (c # r))
          else if take 5 (c # r) = ''false'' then Some (drop 5 (c # r))
          else if take 4 (c # r) = ''null'' then Some (drop 4 (c # r))
          else json_number (c # r))"
| "json_elements 0 cs = None"
| "json_elements (Suc n) cs =
     (case json_value n cs of
        None \<Rightarrow> None
      | Some r \<Rightarrow>
          (case skip_ws r of
             [] \<Rightarrow> None
           | d # r' \<Rightarrow>
               if d = CHR '','' then json_elements n r'
               else if d = CHR '']'' then Some r'
               else None))"
| "json_members 0 cs = None"
| "json_members (Suc n) cs =
     (case skip_ws cs of
        [] \<Rightarrow> None
      | k # r \<Rightarrow>
          if k = CHR 0x22 then
            (case json_string r of
               None \<Rightarrow> None
             | Some r1 \<Rightarrow>
                 (case skip_ws r1 of
                    [] \<Rightarrow> None
                  | colon # r2 \<Rightarrow>
                      if colon = CHR '':'' then
                        (case json_value n r2 of
                           None \<Rightarrow> None
                         | Some r3 \<Rightarrow>
                             (case skip_ws r3 of
                                [] \<Rightarrow> None
                              | d # r4 \<Rightarrow>
                                  if d = CHR '','' then json_members n r4
                                  else if d = CHR ''}'' then Some r4
                                  else None))
                      else None))
          else None)"

text \<open>\<^verbatim>\<open>JSON.parse(s)\<close> returns when \<^verbatim>\<open>s\<close> is one value with nothing but white space after it.\<close>

definition JSON_valid :: "string \<Rightarrow> bool" where
  "JSON_valid s =
     (case json_value (Suc (length s)) s of
        None \<Rightarrow> False
      | Some r \<Rightarrow> skip_ws r = [])"

text \<open>
  A bound \<open>n\<close> is enough for a recogniser on a text when a result with that bound is a
  proper suffix of the text and is also the result with every bound that is at least the
  number of characters read.
\<close>

definition enough :: "(nat \<Rightarrow> string \<Rightarrow> string option) \<Rightarrow> nat \<Rightarrow> string \<Rightarrow> bool" where
  "enough f n cs = (\<forall>r. f n cs = Some r \<longrightarrow>
      length r < length cs \<and> (\<forall>m. length cs - length r \<le> m \<longrightarrow> f m cs = Some r))"

subsection \<open>\<^verbatim>\<open>encodeURIComponent\<close> and the cookie round trip\<close>

text \<open>
  \<^verbatim>\<open>encodeURIComponent\<close> keeps the unreserved characters and writes every other byte of the
  UTF-8 encoding as \<^verbatim>\<open>%XX\<close> with upper-case digits.
\<close>

definition uri_unreserved :: "char \<Rightarrow> bool" where
  "uri_unreserved c =
     (c \<in> set (''ABCDEFGHIJKLMNOPQRSTUVWXYZabcdefghijklmnopqrstuvwxyz0123456789-_.!~*()''
               @ [CHR 0x27]))"

definition upper_hex :: "nat \<Rightarrow> char" where
  "upper_hex d = ''0123456789ABCDEF'' ! d"

definition encode_char :: "char \<Rightarrow> string" where
  "encode_char c =
     (if uri_unreserved c then [c]
      else [CHR ''%'', upper_hex (of_char c div 16), upper_hex (of_char c mod 16)])"

definition encodeURIComponent :: "string \<Rightarrow> string" where
  "encodeURIComponent s = concat (map encode_char s)"

text \<open>The characters that \<^verbatim>\<open>encodeURIComponent\<close> can write.\<close>

definition uri_safe :: "char \<Rightarrow> bool" where
  "uri_safe c = (uri_unreserved c \<or> c = CHR ''%'')"

text \<open>
  \<^verbatim>\<open>decodeURIComponent\<close>, byte by byte: \<open>None\<close> is its URIError on a \<^verbatim>\<open>%\<close> that two
  hexadecimal digits do not follow. (It also rejects escapes that are not UTF-8; such
  escapes do not occur in what \<^verbatim>\<open>encodeURIComponent\<close> writes.)
\<close>

definition hex_value :: "char \<Rightarrow> nat option" where
  "hex_value c =
     (let n = (of_char c :: nat) in
      if 48 \<le> n \<and> n \<le> 57 then Some (n - 48)
      else if 65 \<le> n \<and> n \<le> 70 then Some (n - 55)
      else if 97 \<le> n \<and> n \<le> 102 then Some (n - 87)
      else None)"

fun decodeURIComponent :: "string \<Rightarrow> string option" where
  "decodeURIComponent [] = Some []"
| "decodeURIComponent (c # cs) =
     (if c = CHR ''%'' then
        (case cs of
           h # l # r \<Rightarrow>
             (case (hex_value h, hex_value l) of
                (Some a, Some b) \<Rightarrow> map_option ((#) (char_of (16 * a + b))) (decodeURIComponent r)
              | _ \<Rightarrow> None)
         | _ \<Rightarrow> None)
      else map_option ((#) c) (decodeURIComponent cs))"

text \<open>
  The browser stores the \<^verbatim>\<open>name=value\<close> pair that opens a \<^verbatim>\<open>Set-Cookie\<close> header and sends
  it back as the \<^verbatim>\<open>Cookie\<close> header. The middleware \<^verbatim>\<open>cookieParser()\<close> splits that header at
  the semicolons, splits each pair at its first \<^verbatim>\<open>=\<close>, trims both sides, drops the quotes
  of a quoted value, decodes the value (keeping it as it is when decoding throws) and
  keeps the first pair of each name; the result is \<^verbatim>\<open>req.cookies\<close>. (The middleware goes
  on to parse the values that start with \<^verbatim>\<open>j:\<close> as JSON; the cookies here are strings.)
\<close>

definition browser_cookie :: "string \<Rightarrow> string" where
  "browser_cookie set_cookie = takeWhile (\<lambda>c. c \<noteq> CHR '';'') set_cookie"

fun split_on :: "char \<Rightarrow> string \<Rightarrow> string list" where
  "split_on d [] = [[]]"
| "split_on d (c # cs) =
     (if c = d then [] # split_on d cs
      else (case split_on d cs of
              [] \<Rightarrow> [[c]]
            | x # xs \<Rightarrow> (c # x) # xs))"

definition is_space :: "char \<Rightarrow> bool" where
  "is_space c = (c \<in> set [CHR 0x20, CHR 0x09, CHR 0x0A, CHR 0x0B, CHR 0x0C, CHR 0x0D])"

definition strip :: "string \<Rightarrow> string" where
  "strip s = rev (dropWhile is_space (rev (dropWhile is_space s)))"

definition tryDecode :: "string \<Rightarrow> string" where
  "tryDecode v = (case decodeURIComponent v of None \<Rightarrow> v | Some d \<Rightarrow> d)"

definition cookie_pair :: "string \<Rightarrow> (string \<times> string) option" where
  "cookie_pair pair =
     (if CHR ''='' \<in> set pair then
        (let key = strip (takeWhile (\<lambda>c. c \<noteq> CHR ''='') pair);
             val = strip (tl (dropWhile (\<lambda>c. c \<noteq> CHR ''='') pair));
             val' = (case val of
                       [] \<Rightarrow> val
                     | c # r \<Rightarrow> if c = CHR 0x22 then butlast r else val)
         in Some (key, tryDecode val'))
      else None)"

definition cookie_parse :: "string \<Rightarrow> (string \<rightharpoonup> string)" where
  "cookie_parse header = map_of (List.map_filter cookie_pair (split_on CHR '';'' header))"

section \<open>Server: the handlers\<close>

text \<open>
  A request as the handlers read it: \<^verbatim>\<open>req.cookies\<close> (string values), \<^verbatim>\<open>req.query\<close> and the
  parsed \<^verbatim>\<open>req.body\<close>. A response is its status, its headers and what was sent.
\<close>

record request =
  cookies :: "string \<rightharpoonup> string"
  query :: "string \<rightharpoonup> string"
  body :: jsval

datatype payload = Json json | Text string | AuthSuccessPage

record response =
  status :: nat
  headers :: "(string \<times> string) list"
  sent :: payload

text \<open>
  A thrown JavaScript error with its \<^verbatim>\<open>message\<close>. The texts of the errors that the engine
  itself throws are the engine's; \<^verbatim>\<open>error_text\<close> below supplies them.
\<close>

datatype js_error = SyntaxError string | TypeError string | RequestError "string option"

fun message :: "js_error \<Rightarrow> string option" where
  "message (SyntaxError m) = Some m"
| "message (TypeError m) = Some m"
| "message (RequestError m) = m"

datatype fault = InvalidJson | BodyNotAnObject | SplitNotCallable | BufferFromUndefined

subsection \<open>\<^verbatim>\<open>status.ts\<close>\<close>

text \<open>\<^verbatim>\<open>!!tokens\<close>: an absent cookie and the empty string are falsy.\<close>

definition truthy :: "string option \<Rightarrow> bool" where
  "truthy v = (case v of None \<Rightarrow> False | Some s \<Rightarrow> s \<noteq> [])"

definition statusHandler :: "request \<Rightarrow> response" where
  "statusHandler req =
     \<lparr>status = 200, headers = [],
      sent = Json (JObj [(''isAuthenticated'', JBool (truthy (cookies req ''google_tokens'')))])\<rparr>"

subsection \<open>\<^verbatim>\<open>callback.ts\<close>\<close>

text \<open>
  \<^verbatim>\<open>oauth2Client.getToken(code)\<close> either throws or resolves to the token set, an object
  whose properties are given in order.
\<close>

record oauth =
  getToken :: "string option \<Rightarrow> js_error + (string \<times> json) list"

definition callbackHandler :: "oauth \<Rightarrow> request \<Rightarrow> response" where
  "callbackHandler env req =
     (case getToken env (query req ''code'') of
        Inl e \<Rightarrow> \<lparr>status = 500, headers = [], sent = Text ''Authentication failed''\<rparr>
      | Inr tokens \<Rightarrow>
          let cookieValue = JSON_stringify (JObj tokens)
          in \<lparr>status = 200,
              headers = [(''Set-Cookie'',
                          ''google_tokens='' @ encodeURIComponent cookieValue
                            @ ''; Path=/; HttpOnly; Secure; SameSite=None; Max-Age=''
                            @ digits (30 * 24 * 60 * 60))],
              sent = AuthSuccessPage\<rparr>)"

text \<open>
  The client reads \<^verbatim>\<open>data.isAuthenticated\<close> from the status reply. \<^verbatim>\<open>follow_up\<close> is the next
  request of a browser that held no cookie before the response: it carries the cookie
  that the response set.
\<close>

definition isAuthenticated :: "response \<Rightarrow> jsval" where
  "isAuthenticated res = (case sent res of Json (JObj kvs) \<Rightarrow> map_of kvs ''isAuthenticated'' | _ \<Rightarrow> None)"

definition follow_up :: "response \<Rightarrow> request" where
  "follow_up res =
     \<lparr>cookies = (case map_of (headers res) ''Set-Cookie'' of
                   None \<Rightarrow> Map.empty
                 | Some h \<Rightarrow> cookie_parse (browser_cookie h)),
      query = Map.empty,
      body = None\<rparr>"

subsection \<open>\<^verbatim>\<open>save-to-google.ts\<close>\<close>

text \<open>
  The requests of the Drive and Sheets clients, as the handler writes them. A cell of a
  row is any value, \<open>None\<close> where the handler passes \<^verbatim>\<open>undefined\<close>. \<^verbatim>\<open>media_body\<close> is the
  base64 text whose decoding (\<^verbatim>\<open>Buffer.from(base64Data, 'base64')\<close>) is the uploaded content.
\<close>

record upload_request =
  name :: string
  mimeType :: string
  media_mimeType :: string
  media_body :: string
  fields_create :: string

record list_request =
  q_list :: string
  fields_list :: string

record create_request =
  title :: string
  sheet_titles :: "string list"

record values_request =
  spreadsheetId :: "string option"
  range_a1 :: string
  valueInputOption :: string
  rows :: "jsval list list"

datatype call =
    FilesCreate upload_request
  | FilesList list_request
  | SpreadsheetsCreate create_request
  | ValuesUpdate values_request
  | ValuesAppend values_request

text \<open>The \<^verbatim>\<open>data\<close> of the upload's response, restricted to the requested fields.\<close>

datatype drive_file = DriveFile (file_id: "string option") (webViewLink: "string option")

text \<open>
  \<^verbatim>\<open>tokens = JSON.parse(tokensStr)\<close> is installed with \<^verbatim>\<open>setCredentials\<close> and from then on
  authorises every call; it is kept as the text it was parsed from.
\<close>

datatype credentials = Credentials string

text \<open>
  What lies outside the handler: the clock (\<^verbatim>\<open>Date.now()\<close> of step 1 and
  \<^verbatim>\<open>new Date().toISOString()\<close> of step 3), the texts of the engine's own errors, and the
  Google services. Each call either throws or resolves; \<^verbatim>\<open>files_list\<close> resolves to the ids
  of \<^verbatim>\<open>data.files\<close> (\<open>None\<close> when the property is missing) and \<^verbatim>\<open>spreadsheets_create\<close> to
  \<^verbatim>\<open>data.spreadsheetId\<close>.
\<close>

record google =
  date_now :: nat
  iso_now :: string
  error_text :: "fault \<Rightarrow> string"
  files_create :: "credentials \<Rightarrow> upload_request \<Rightarrow> js_error + drive_file"
  files_list :: "credentials \<Rightarrow> list_request \<Rightarrow> js_error + string option list option"
  spreadsheets_create :: "credentials \<Rightarrow> create_request \<Rightarrow> js_error + string option"
  values_update :: "credentials \<Rightarrow> values_request \<Rightarrow> js_error + unit"
  values_append :: "credentials \<Rightarrow> values_request \<Rightarrow> js_error + unit"

text \<open>What a run of the handler ends in: a response, or an error that nothing caught.\<close>

datatype outcome = Responded response | Uncaught js_error

text \<open>Reading a property: only an object has the properties the handler asks for.\<close>

definition property :: "json \<Rightarrow> string \<Rightarrow> jsval" where
  "property j k = (case j of JObj kvs \<Rightarrow> map_of kvs k | _ \<Rightarrow> None)"

text \<open>\<^verbatim>\<open>const { imageData, prompt, aspectRatio } = req.body\<close> throws on \<^verbatim>\<open>undefined\<close> and \<^verbatim>\<open>null\<close>.\<close>

definition destructure_body :: "google \<Rightarrow> jsval \<Rightarrow> js_error + (jsval \<times> jsval \<times> jsval)" where
  "destructure_body env b =
     (case b of
        None \<Rightarrow> Inl (TypeError (error_text env BodyNotAnObject))
      | Some JNull \<Rightarrow> Inl (TypeError (error_text env BodyNotAnObject))
      | Some j \<Rightarrow> Inr (property j ''imageData'', property j ''prompt'', property j ''aspectRatio''))"

text \<open>\<^verbatim>\<open>JSON.parse(tokensStr)\<close>\<close>

definition JSON_parse :: "google \<Rightarrow> string \<Rightarrow> js_error + credentials" where
  "JSON_parse env tokensStr =
     (if JSON_valid tokensStr then Inr (Credentials tokensStr)
      else Inl (SyntaxError (error_text env InvalidJson)))"

text \<open>
  \<^verbatim>\<open>imageData.split(',')[1]\<close> and \<^verbatim>\<open>Buffer.from(base64Data, 'base64')\<close>: a value without a
  \<^verbatim>\<open>split\<close> method throws, and so does \<^verbatim>\<open>Buffer.from\<close> on the \<^verbatim>\<open>undefined\<close> that a string
  without a comma gives.
\<close>

definition base64Data :: "google \<Rightarrow> jsval \<Rightarrow> js_error + string" where
  "base64Data env imageData =
     (case imageData of
        Some (JStr s) \<Rightarrow>
          (case split_on CHR '','' s of
             _ # b # _ \<Rightarrow> Inr b
           | _ \<Rightarrow> Inl (TypeError (error_text env BufferFromUndefined)))
      | _ \<Rightarrow> Inl (TypeError (error_text env SplitNotCallable)))"

definition upload :: "google \<Rightarrow> string \<Rightarrow> upload_request" where
  "upload env b64 =
     \<lparr>name = ''Visionary_'' @ digits (date_now env) @ ''.png'',
      mimeType = ''image/png'',
      media_mimeType = ''image/png'',
      media_body = b64,
      fields_create = ''id, webViewLink''\<rparr>"

definition listing :: list_request where
  "listing =
     \<lparr>q_list = ''name = '' @ [CHR 0x27] @ ''Visionary AI Generations'' @ [CHR 0x27]
                @ '' and mimeType = '' @ [CHR 0x27]
                @ ''application/vnd.google-apps.spreadsheet'' @ [CHR 0x27],
      fields_list = ''files(id)''\<rparr>"

definition creation :: create_request where
  "creation = \<lparr>title = ''Visionary AI Generations'', sheet_titles = [''Generations'']\<rparr>"

definition header_row :: "string option \<Rightarrow> values_request" where
  "header_row sid =
     \<lparr>spreadsheetId = sid,
      range_a1 = ''Generations!A1:D1'',
      valueInputOption = ''RAW'',
      rows = [[Some (JStr ''Timestamp''), Some (JStr ''Prompt''),
               Some (JStr ''Aspect Ratio''), Some (JStr ''Drive Link'')]]\<rparr>"

definition data_row :: "google \<Rightarrow> string option \<Rightarrow> jsval \<Rightarrow> jsval \<Rightarrow> string option \<Rightarrow> values_request" where
  "data_row env sid p ar fileLink =
     \<lparr>spreadsheetId = sid,
      range_a1 = ''Generations!A:D'',
      valueInputOption = ''RAW'',
      rows = [[Some (JStr (iso_now env)), p, ar, map_option JStr fileLink]]\<rparr>"

text \<open>
  Step 2 after the listing has resolved: the first listed id, or a new spreadsheet and
  its header row. The result comes with the calls that were issued.
\<close>

definition find_or_create ::
    "google \<Rightarrow> credentials \<Rightarrow> string option list option \<Rightarrow> (js_error + string option) \<times> call list" where
  "find_or_create env tokens files =
     (case files of
        Some (f # fs) \<Rightarrow> (Inr f, [])
      | _ \<Rightarrow>
          (case spreadsheets_create env tokens creation of
             Inl e \<Rightarrow> (Inl e, [SpreadsheetsCreate creation])
           | Inr sid \<Rightarrow>
               (case values_update env tokens (header_row sid) of
                  Inl e \<Rightarrow> (Inl e, [SpreadsheetsCreate creation, ValuesUpdate (header_row sid)])
                | Inr u \<Rightarrow> (Inr sid, [SpreadsheetsCreate creation, ValuesUpdate (header_row sid)]))))"

text \<open>The \<^verbatim>\<open>try\<close> block: the view link of the uploaded file, or the first error thrown.\<close>

definition export_steps ::
    "google \<Rightarrow> credentials \<Rightarrow> jsval \<Rightarrow> jsval \<Rightarrow> jsval \<Rightarrow> (js_error + string option) \<times> call list" where
  "export_steps env tokens imageData p ar =
     (case base64Data env imageData of
        Inl e \<Rightarrow> (Inl e, [])
      | Inr b64 \<Rightarrow>
          (case files_create env tokens (upload env b64) of
             Inl e \<Rightarrow> (Inl e, [FilesCreate (upload env b64)])
           | Inr driveResponse \<Rightarrow>
               let fileLink = webViewLink driveResponse;
                   done1 = [FilesCreate (upload env b64), FilesList listing]
               in (case files_list env tokens listing of
                     Inl e \<Rightarrow> (Inl e, done1)
                   | Inr files \<Rightarrow>
                       (case find_or_create env tokens files of
                          (Inl e, done2) \<Rightarrow> (Inl e, done1 @ done2)
                        | (Inr sid, done2) \<Rightarrow>
                            let row = data_row env sid p ar fileLink;
                                done3 = done1 @ done2 @ [ValuesAppend row]
                            in (case values_append env tokens row of
                                  Inl e \<Rightarrow> (Inl e, done3)
                                | Inr u \<Rightarrow> (Inr fileLink, done3))))))"

definition not_authenticated :: response where
  "not_authenticated =
     \<lparr>status = 401, headers = [],
      sent = Json (JObj [(''error'', JStr ''Not authenticated with Google'')])\<rparr>"

definition failure :: "js_error \<Rightarrow> response" where
  "failure e =
     \<lparr>status = 500, headers = [],
      sent = Json (JObj [(''error'', JStr (or_else (message e) ''Failed to save to Google''))])\<rparr>"

definition success :: "string option \<Rightarrow> response" where
  "success fileLink =
     \<lparr>status = 200, headers = [],
      sent = Json (JObj ((''success'', JBool True)
                         # (case fileLink of None \<Rightarrow> [] | Some l \<Rightarrow> [(''fileLink'', JStr l)])))\<rparr>"

text \<open>
  The handler: the answer or the uncaught error, and the outbound calls in the order
  they were issued. The destructuring of the body and \<^verbatim>\<open>JSON.parse\<close> stand before the
  \<^verbatim>\<open>try\<close>.
\<close>

definition saveToGoogleHandler :: "google \<Rightarrow> request \<Rightarrow> outcome \<times> call list" where
  "saveToGoogleHandler env req =
     (case cookies req ''google_tokens'' of
        None \<Rightarrow> (Responded not_authenticated, [])
      | Some tokensStr \<Rightarrow>
          if tokensStr = [] then (Responded not_authenticated, [])
          else
            (case destructure_body env (body req) of
               Inl e \<Rightarrow> (Uncaught e, [])
             | Inr (imageData, p, ar) \<Rightarrow>
                 (case JSON_parse env tokensStr of
                    Inl e \<Rightarrow> (Uncaught e, [])
                  | Inr tokens \<Rightarrow>
                      (case export_steps env tokens imageData p ar of
                         (Inl e, calls) \<Rightarrow> (Responded (failure e), calls)
                       | (Inr fileLink, calls) \<Rightarrow> (Responded (success fileLink), calls)))))"

section \<open>Example inputs\<close>

text \<open>A history of twenty images, most recent first, and a state that displays its second.\<close>

definition sample_image :: "nat \<Rightarrow> GeneratedImage" where
  "sample_image n =
     \<lparr>id_img = ''img'' @ digits n,
      url_img = ''https://img.example/'' @ digits n @ ''.png'',
      prompt_img = [0x61, 0x20, 0x63, 0x61, 0x74],
      aspectRatio_img = ''1:1'',
      timestamp_img = 1700000000000 - int n\<rparr>"

definition sample_history :: "GeneratedImage list" where
  "sample_history = map sample_image [1..<21]"

definition sample_state :: app_state where
  "sample_state =
     \<lparr>prompt = [0x61, 0x20, 0x63, 0x61, 0x74],
      aspectRatio = Ratio_16_9,
      isGenerating = False,
      currentImage = Some (sample_image 2),
      history = sample_history,
      error = None,
      isSavingToGoogle = False,
      isGoogleAuthenticated = True,
      saveSuccess = False\<rparr>"

definition sample_result :: generate_result where
  "sample_result =
     \<lparr>url_res = ''https://img.example/new.png'',
      prompt_res = [0x61, 0x20, 0x63, 0x61, 0x74],
      timestamp_res = 1700000123456,
      error_res = None\<rparr>"

text \<open>A browser whose generation request succeeds and whose random draw prints as given.\<close>

definition sample_browser :: "string \<Rightarrow> browser" where
  "sample_browser r36 = \<lparr>fetch_generate = (\<lambda>rq. Replied 200 sample_result), random36 = r36\<rparr>"

text \<open>A token set as the code exchange returns it, and the callback request.\<close>

definition sample_tokens :: "(string \<times> json) list" where
  "sample_tokens =
     [(''access_token'', JStr ''ya29.a0AfB_byC''),
      (''refresh_token'', JStr ''1//0gLq''),
      (''scope'', JStr ''https://www.googleapis.com/auth/drive.file https://www.googleapis.com/auth/spreadsheets''),
      (''token_type'', JStr ''Bearer''),
      (''expiry_date'', JNum 1700003599000)]"

definition sample_oauth :: oauth where
  "sample_oauth = \<lparr>getToken = (\<lambda>code. Inr sample_tokens)\<rparr>"

definition sample_callback :: request where
  "sample_callback = \<lparr>cookies = Map.empty, query = [''code'' \<mapsto> ''4/0AfJohXl''], body = None\<rparr>"

text \<open>An export request with a session cookie, and Google services that all succeed, the
  listing returning the given ids.\<close>

definition sample_cookie :: string where
  \<open>sample_cookie = ''{"access_token":"ya29.a0AfB_byC","token_type":"Bearer"}''\<close>

definition sample_body :: json where
  "sample_body =
     JObj [(''imageData'', JStr ''data:image/png;base64,iVBORw0KGgo=''),
           (''prompt'', JStr ''a cat''),
           (''aspectRatio'', JStr ''16:9'')]"

definition sample_export :: "string \<Rightarrow> request" where
  "sample_export cookie =
     \<lparr>cookies = [''google_tokens'' \<mapsto> cookie], query = Map.empty, body = Some sample_body\<rparr>"

fun sample_text :: "fault \<Rightarrow> string" where
  "sample_text InvalidJson = ''Unexpected token o in JSON at position 1''"
| "sample_text BodyNotAnObject = ''Cannot destructure property imageData of req.body as it is undefined.''"
| "sample_text SplitNotCallable = ''imageData.split is not a function''"
| "sample_text BufferFromUndefined = ''The first argument must be of type string. Received undefined''"

definition sample_google :: "string option list option \<Rightarrow> google" where
  "sample_google files =
     \<lparr>date_now = 1700000000000,
      iso_now = ''2023-11-14T22:13:20.000Z'',
      error_text = sample_text,
      files_create = (\<lambda>tokens rq. Inr (DriveFile (Some ''file-1'')
                                         (Some ''https://drive.google.com/file/d/file-1/view''))),
      files_list = (\<lambda>tokens rq. Inr files),
      spreadsheets_create = (\<lambda>tokens rq. Inr (Some ''sheet-new'')),
      values_update = (\<lambda>tokens rq. Inr ()),
      values_append = (\<lambda>tokens rq. Inr ())\<rparr>"

section \<open>Properties of the client\<close>

lemma push_history_Cons: "push_history newImage prev = newImage # take 19 prev"
  by (simp add: push_history_def)

lemma sample_prompt_not_blank: "trim (prompt sample_state) \<noteq> []"
  by (simp add: sample_state_def trim_def is_js_whitespace_def)

text \<open>
  A generation that succeeds (a non-blank prompt, a reply with status 200) displays the
  new image and pushes it onto the history with \<^const>\<open>push_history\<close>; one request is sent.
\<close>

lemma handleGenerate_success:
  assumes "trim (prompt s) \<noteq> []"
    and "fetch_generate env \<lparr>prompt_req = prompt s, aspectRatio_req = aspectRatio s\<rparr> = Replied 200 r"
  shows "handleGenerate env s =
           (s\<lparr>isGenerating := False, error := None,
              currentImage := Some \<lparr>id_img = new_id env, url_img = url_res r,
                                     prompt_img = prompt_res r,
                                     aspectRatio_img = aspect_text (aspectRatio s),
                                     timestamp_img = timestamp_res r\<rparr>,
              history := push_history \<lparr>id_img = new_id env, url_img = url_res r,
                                       prompt_img = prompt_res r,
                                       aspectRatio_img = aspect_text (aspectRatio s),
                                       timestamp_img = timestamp_res r\<rparr> (history s)\<rparr>,
            [\<lparr>prompt_req = prompt s, aspectRatio_req = aspectRatio s\<rparr>])"
  using assms by (simp add: handleGenerate_def Let_def)

text \<open>
  Claim C6. Whatever the history was and whatever image is inserted, the history after
  the insertion has at most 20 entries, the new image is its first entry and the
  entries behind it are the previous ones in their previous order; a history of fewer
  than 20 entries loses nothing, and a history of exactly 20 entries loses exactly its
  last (oldest) entry.
\<close>

theorem history_capped_most_recent_first:
  "length (push_history newImage prev) \<le> 20
   \<and> hd (push_history newImage prev) = newImage
   \<and> tl (push_history newImage prev) = take 19 prev
   \<and> (length prev < 20 \<longrightarrow> push_history newImage prev = newImage # prev)
   \<and> (length prev = 20 \<longrightarrow> push_history newImage prev = newImage # butlast prev)"
  by (simp add: push_history_Cons butlast_conv_take)

theorem history_capped_most_recent_first_witness:
  "length sample_history = 20
   \<and> push_history (sample_image 0) sample_history = sample_image 0 # butlast sample_history
   \<and> length (push_history (sample_image 0) sample_history) \<le> 20
   \<and> push_history (sample_image 0) [] = [sample_image 0]"
  using history_capped_most_recent_first [of "sample_image 0" sample_history]
    history_capped_most_recent_first [of "sample_image 0" "[]"]
  by (simp add: sample_history_def)

text \<open>
  Claim C8. On a successful generation the displayed image carries the url and the
  timestamp of the reply, but its id is \<^verbatim>\<open>Math.random().toString(36).substring(7)\<close>, which
  is the empty string whenever the draw prints in at most seven characters: the id is
  not non-empty for every value of the random source. The second theorem runs the
  handler on the draw 0.5, which prints as \<^verbatim>\<open>0.i\<close>.
\<close>

theorem generated_image_id_empty:
  assumes "trim (prompt s) \<noteq> []"
    and "fetch_generate env \<lparr>prompt_req = prompt s, aspectRatio_req = aspectRatio s\<rparr> = Replied 200 r"
    and "length (random36 env) \<le> 7"
  shows "currentImage (fst (handleGenerate env s)) =
           Some \<lparr>id_img = [], url_img = url_res r, prompt_img = prompt_res r,
                 aspectRatio_img = aspect_text (aspectRatio s), timestamp_img = timestamp_res r\<rparr>"
  using assms by (simp add: handleGenerate_def Let_def new_id_def)

theorem generated_image_id_empty_witness:
  "currentImage (fst (handleGenerate (sample_browser ''0.i'') sample_state)) =
     Some \<lparr>id_img = [], url_img = ''https://img.example/new.png'',
           prompt_img = [0x61, 0x20, 0x63, 0x61, 0x74],
           aspectRatio_img = ''16:9'', timestamp_img = 1700000123456\<rparr>"
proof -
  have "fetch_generate (sample_browser ''0.i'')
          \<lparr>prompt_req = prompt sample_state, aspectRatio_req = aspectRatio sample_state\<rparr>
        = Replied 200 sample_result"
    by (simp add: sample_browser_def)
  moreover have "length (random36 (sample_browser ''0.i'')) \<le> 7"
    by (simp add: sample_browser_def)
  ultimately show ?thesis
    using generated_image_id_empty [OF sample_prompt_not_blank]
    by (simp add: sample_result_def sample_state_def)
qed

text \<open>
  Claim C9. Deleting the id of the displayed image clears the displayed image; deleting
  any other id leaves it as it was (also when nothing is displayed). The history after
  the deletion is a subsequence of the history before (the order of what remains is
  kept), holds no entry with the deleted id, and holds every other entry as often as
  before. Nothing else of the state changes.
\<close>

theorem delete_from_history_frame:
  "(\<forall>img. currentImage s = Some img \<and> id_img img = i \<longrightarrow> currentImage (deleteFromHistory i s) = None)
   \<and> (\<forall>img. currentImage s = Some img \<and> id_img img \<noteq> i
          \<longrightarrow> currentImage (deleteFromHistory i s) = Some img)
   \<and> (currentImage s = None \<longrightarrow> currentImage (deleteFromHistory i s) = None)
   \<and> subseq (history (deleteFromHistory i s)) (history s)
   \<and> (\<forall>img. id_img img = i \<longrightarrow> img \<notin> set (history (deleteFromHistory i s)))
   \<and> (\<forall>img. id_img img \<noteq> i
          \<longrightarrow> count_list (history (deleteFromHistory i s)) img = count_list (history s) img)
   \<and> (deleteFromHistory i s)\<lparr>history := history s, currentImage := currentImage s\<rparr> = s"
proof -
  have count: "id_img img \<noteq> i \<Longrightarrow>
      count_list (filter (\<lambda>x. id_img x \<noteq> i) xs) img = count_list xs img" for img xs
    by (induction xs) auto
  show ?thesis
    by (simp add: deleteFromHistory_def count)
qed

theorem delete_from_history_frame_witness:
  "currentImage (deleteFromHistory ''img2'' sample_state) = None
   \<and> currentImage (deleteFromHistory ''img7'' sample_state) = Some (sample_image 2)
   \<and> sample_image 2 \<notin> set (history (deleteFromHistory ''img2'' sample_state))
   \<and> count_list (history (deleteFromHistory ''img2'' sample_state)) (sample_image 3) = 1"
proof -
  have ids: "id_img (sample_image 2) = ''img2''" "id_img (sample_image 3) = ''img3''"
    by (simp_all add: sample_image_def digits.simps digit_char_def)
  have cur: "currentImage sample_state = Some (sample_image 2)"
    by (simp add: sample_state_def)
  have cnt: "count_list (history sample_state) (sample_image 3) = 1"
    by code_simp
  show ?thesis
    using delete_from_history_frame [of sample_state "''img2''"]
      delete_from_history_frame [of sample_state "''img7''"] ids cur cnt
    by simp
qed

text \<open>
  Claim C10. When the prompt is empty or holds nothing but white space, the generate
  action returns at once: no request is sent and the state (displayed image, history,
  error, in-progress flag and all the rest) is the state it was called in.
\<close>

theorem blank_prompt_is_ignored:
  assumes "list_all is_js_whitespace (prompt s)"
  shows "handleGenerate env s = (s, [])"
proof -
  have blank: "dropWhile is_js_whitespace (prompt s) = []"
    using assms by (simp add: dropWhile_eq_Nil_conv list_all_iff)
  show ?thesis
    by (simp add: handleGenerate_def trim_def blank)
qed

theorem blank_prompt_is_ignored_witness:
  "list_all is_js_whitespace [0x20, 0x09, 0x3000]
   \<and> handleGenerate (sample_browser ''0.4fzyo82mvyr'') (sample_state\<lparr>prompt := [0x20, 0x09, 0x3000]\<rparr>)
       = (sample_state\<lparr>prompt := [0x20, 0x09, 0x3000]\<rparr>, [])"
proof -
  have "list_all is_js_whitespace (prompt (sample_state\<lparr>prompt := [0x20, 0x09, 0x3000]\<rparr>))"
    by (simp add: is_js_whitespace_def)
  from blank_prompt_is_ignored [OF this] show ?thesis
    by (simp add: is_js_whitespace_def)
qed

section \<open>Properties of the handlers\<close>

lemma JSON_valid_nonempty: "JSON_valid s \<Longrightarrow> s \<noteq> []"
  by (auto simp: JSON_valid_def skip_ws_def)

lemma not_json_invalid: "\<not> JSON_valid ''not-json''"
  by code_simp

subsection \<open>The recogniser of JSON texts\<close>

lemma skip_ws_length: "length (skip_ws cs) \<le> length cs"
  by (simp add: skip_ws_def length_dropWhile_le)

lemma skip_ws_Cons: "skip_ws cs = c # r \<Longrightarrow> length r < length cs"
  using skip_ws_length [of cs] by simp

lemma json_string_shorter: "json_string cs = Some r \<Longrightarrow> length r < length cs"
proof (induction cs arbitrary: r rule: json_string.induct)
  case 1
  then show ?case by simp
next
  case (2 c cs)
  then show ?case
    by (fastforce split: if_splits list.splits)
qed

lemma json_fraction_shorter: "json_fraction cs = Some r \<Longrightarrow> length r \<le> length cs"
  using length_dropWhile_le [of is_digit "tl cs"]
  by (auto simp: json_fraction_def split: list.splits if_splits)

lemma json_exponent_shorter: "json_exponent cs = Some r \<Longrightarrow> length r \<le> length cs"
proof -
  have le: "length (dropWhile is_digit t) \<le> length t" for t
    by (rule length_dropWhile_le)
  assume "json_exponent cs = Some r"
  then show ?thesis
    using le [of "tl cs"] le [of "tl (tl cs)"]
    by (auto simp: json_exponent_def Let_def split: list.splits if_splits)
qed

lemma json_number_shorter: "json_number cs = Some r \<Longrightarrow> length r < length cs"
proof -
  have le: "length (dropWhile is_digit t) \<le> length t" for t
    by (rule length_dropWhile_le)
  assume "json_number cs = Some r"
  then show ?thesis
    using le [of "tl cs"] le [of "tl (tl cs)"]
    by (auto simp: json_number_def Let_def split: list.splits if_splits option.splits
        dest!: json_fraction_shorter json_exponent_shorter)
qed


lemma enoughI:
  assumes "\<And>r. f n cs = Some r \<Longrightarrow> length r < length cs"
    and "\<And>r m. f n cs = Some r \<Longrightarrow> length cs - length r \<le> Suc m \<Longrightarrow> f (Suc m) cs = Some r"
  shows "enough f n cs"
  unfolding enough_def
proof (intro allI impI conjI)
  fix r m
  assume r: "f n cs = Some r" and m: "length cs - length r \<le> m"
  from assms(1) [OF r] m obtain m' where "m = Suc m'"
    by (cases m) auto
  with assms(2) [OF r] m show "f m cs = Some r" by simp
qed (use assms(1) in auto)

lemma enoughD:
  assumes "enough f n cs" and "f n cs = Some r"
  shows "length r < length cs" and "length cs - length r \<le> m \<Longrightarrow> f m cs = Some r"
  using assms by (auto simp: enough_def)

lemma json_enough:
  "enough json_value n cs \<and> enough json_elements n cs \<and> enough json_members n cs"
proof (induction n arbitrary: cs)
  case 0
  show ?case
    by (simp add: enough_def)
next
  case (Suc n)
  have V: "enough json_value n cs" and E: "enough json_elements n cs"
    and M: "enough json_members n cs" for cs
    using Suc.IH by simp_all
  note V = enoughD [OF V] and E = enoughD [OF E] and M = enoughD [OF M]
  have val: "length r < length cs \<and> (length cs - length r \<le> Suc m \<longrightarrow> json_value (Suc m) cs = Some r)"
    if a: "json_value (Suc n) cs = Some r" for r m
  proof -
    obtain c r0 where s: "skip_ws cs = c # r0"
      using a by (cases "skip_ws cs") simp_all
    have l0: "length r0 < length cs"
      using s by (rule skip_ws_Cons)
    consider (obj) "c = CHR ''{''" | (arr) "c = CHR ''[''" | (flat) "c \<noteq> CHR ''{''" "c \<noteq> CHR ''[''"
      by blast
    then show ?thesis
    proof cases
      case obj
      obtain d r' where s2: "skip_ws r0 = d # r'"
        using a s obj by (cases "skip_ws r0") simp_all
      have l1: "length r' < length r0"
        using s2 by (rule skip_ws_Cons)
      show ?thesis
      proof (cases "d = CHR ''}''")
        case True
        with a s obj s2 have "r = r'" by simp
        with True s obj s2 l0 l1 show ?thesis by simp
      next
        case False
        with a s obj s2 have sub: "json_members n (d # r') = Some r" by simp
        have "json_members m (d # r') = Some r" if "length cs - length r \<le> Suc m"
          using that M(1) [OF sub] l0 l1 by (intro M(2) [OF sub]) simp
        with False s obj s2 M(1) [OF sub] l0 l1 show ?thesis by simp
      qed
    next
      case arr
      obtain d r' where s2: "skip_ws r0 = d # r'"
        using a s arr by (cases "skip_ws r0") simp_all
      have l1: "length r' < length r0"
        using s2 by (rule skip_ws_Cons)
      show ?thesis
      proof (cases "d = CHR '']''")
        case True
        with a s arr s2 have "r = r'" by simp
        with True s arr s2 l0 l1 show ?thesis by simp
      next
        case False
        with a s arr s2 have sub: "json_elements n (d # r') = Some r" by simp
        have "json_elements m (d # r') = Some r" if "length cs - length r \<le> Suc m"
          using that E(1) [OF sub] l0 l1 by (intro E(2) [OF sub]) simp
        with False s arr s2 E(1) [OF sub] l0 l1 show ?thesis by simp
      qed
    next
      case flat
      have same: "json_value (Suc k) cs =
          (if c = CHR 0x22 then json_string r0
           else if take 4 (c # r0) = ''true'' then Some (drop 4 (c # r0))
           else if take 5 (c # r0) = ''false'' then Some (drop 5 (c # r0))
           else if take 4 (c # r0) = ''null'' then Some (drop 4 (c # r0))
           else json_number (c # r0))" for k
        using s flat by simp
      have "length r < length (c # r0)"
        using a unfolding same
        by (auto split: if_splits dest: json_string_shorter json_number_shorter)
      moreover have "length (c # r0) \<le> length cs"
        using s skip_ws_length [of cs] by simp
      ultimately show ?thesis
        using a unfolding same by simp
    qed
  qed
  have elements: "length r < length cs \<and> (length cs - length r \<le> Suc m \<longrightarrow> json_elements (Suc m) cs = Some r)"
    if a: "json_elements (Suc n) cs = Some r" for r m
  proof -
    obtain r1 where v: "json_value n cs = Some r1"
      using a by (cases "json_value n cs") simp_all
    obtain d r' where s: "skip_ws r1 = d # r'"
      using a v by (cases "skip_ws r1") simp_all
    have l1: "length r1 < length cs" using v by (rule V(1))
    have l2: "length r' < length r1" using s by (rule skip_ws_Cons)
    have lr: "length r \<le> length r'"
      and tail: "d = CHR '','' \<and> json_elements n r' = Some r \<or> d \<noteq> CHR '','' \<and> d = CHR '']'' \<and> r = r'"
      using a v s E(1) [of r' r] by (auto split: if_splits)
    have "json_elements (Suc m) cs = Some r" if b: "length cs - length r \<le> Suc m"
    proof -
      have "json_value m cs = Some r1"
        using b l1 l2 lr by (intro V(2) [OF v]) simp
      moreover have "json_elements m r' = Some r" if "json_elements n r' = Some r"
        using b l1 l2 lr by (intro E(2) [OF that]) simp
      ultimately show ?thesis
        using s tail by auto
    qed
    with l1 l2 lr show ?thesis by simp
  qed
  have members: "length r < length cs \<and> (length cs - length r \<le> Suc m \<longrightarrow> json_members (Suc m) cs = Some r)"
    if a: "json_members (Suc n) cs = Some r" for r m
  proof -
    obtain k r0 where s0: "skip_ws cs = k # r0"
      using a by (cases "skip_ws cs") simp_all
    have k: "k = CHR 0x22"
      using a s0 by (simp split: if_splits)
    obtain r1 where str: "json_string r0 = Some r1"
      using a s0 k by (cases "json_string r0") simp_all
    obtain colon r2 where s1: "skip_ws r1 = colon # r2"
      using a s0 k str by (cases "skip_ws r1") simp_all
    have colon: "colon = CHR '':''"
      using a s0 k str s1 by (simp split: if_splits)
    obtain r3 where v: "json_value n r2 = Some r3"
      using a s0 k str s1 colon by (cases "json_value n r2") simp_all
    obtain d r4 where s3: "skip_ws r3 = d # r4"
      using a s0 k str s1 colon v by (cases "skip_ws r3") simp_all
    have l: "length r0 < length cs" "length r1 < length r0" "length r2 < length r1"
      "length r3 < length r2" "length r4 < length r3"
      using skip_ws_Cons [OF s0] json_string_shorter [OF str] skip_ws_Cons [OF s1] V(1) [OF v]
        skip_ws_Cons [OF s3] by simp_all
    have lr: "length r \<le> length r4"
      and tail: "d = CHR '','' \<and> json_members n r4 = Some r \<or> d \<noteq> CHR '','' \<and> d = CHR ''}'' \<and> r = r4"
      using a s0 k str s1 colon v s3 M(1) [of r4 r] by (auto split: if_splits)
    have "json_members (Suc m) cs = Some r" if b: "length cs - length r \<le> Suc m"
    proof -
      have "json_value m r2 = Some r3"
        using b l lr by (intro V(2) [OF v]) simp
      moreover have "json_members m r4 = Some r" if "json_members n r4 = Some r"
        using b l lr by (intro M(2) [OF that]) simp
      ultimately show ?thesis
        using s0 k str s1 colon s3 tail by auto
    qed
    with l lr show ?thesis by simp
  qed
  have "enough json_value (Suc n) cs"
  proof (rule enoughI)
    fix r assume "json_value (Suc n) cs = Some r"
    from val [OF this] show "length r < length cs" by simp
  next
    fix r m assume a: "json_value (Suc n) cs = Some r" and b: "length cs - length r \<le> Suc m"
    from val [OF a, of m] b show "json_value (Suc m) cs = Some r" by simp
  qed
  moreover have "enough json_elements (Suc n) cs"
  proof (rule enoughI)
    fix r assume "json_elements (Suc n) cs = Some r"
    from elements [OF this] show "length r < length cs" by simp
  next
    fix r m assume a: "json_elements (Suc n) cs = Some r" and b: "length cs - length r \<le> Suc m"
    from elements [OF a, of m] b show "json_elements (Suc m) cs = Some r" by simp
  qed
  moreover have "enough json_members (Suc n) cs"
  proof (rule enoughI)
    fix r assume "json_members (Suc n) cs = Some r"
    from members [OF this] show "length r < length cs" by simp
  next
    fix r m assume a: "json_members (Suc n) cs = Some r" and b: "length cs - length r \<le> Suc m"
    from members [OF a, of m] b show "json_members (Suc m) cs = Some r" by simp
  qed
  ultimately show ?case
    by blast
qed

text \<open>The bound that \<^const>\<open>JSON_valid\<close> passes loses nothing: a text that is recognised with
  some bound is recognised with the length of the text.\<close>

lemma JSON_valid_iff: "JSON_valid s = (\<exists>n r. json_value n s = Some r \<and> skip_ws r = [])"
proof
  assume "JSON_valid s"
  then obtain r where "json_value (Suc (length s)) s = Some r" "skip_ws r = []"
    by (cases "json_value (Suc (length s)) s") (simp_all add: JSON_valid_def del: json_value.simps)
  then show "\<exists>n r. json_value n s = Some r \<and> skip_ws r = []"
    by blast
next
  assume "\<exists>n r. json_value n s = Some r \<and> skip_ws r = []"
  then obtain n r where r: "json_value n s = Some r" "skip_ws r = []"
    by blast
  have "enough json_value n s"
    using json_enough by simp
  from enoughD(2) [OF this r(1), of "Suc (length s)"] have "json_value (Suc (length s)) s = Some r"
    by simp
  with r(2) show "JSON_valid s"
    by (simp add: JSON_valid_def)
qed

subsection \<open>The session check\<close>

text \<open>
  Claim C2. A request without a \<^verbatim>\<open>google_tokens\<close> cookie is answered with status 401 and
  the body \<^verbatim>\<open>{error: "Not authenticated with Google"}\<close>, and no outbound call is issued.
\<close>

theorem export_requires_session:
  assumes "cookies req ''google_tokens'' = None"
  shows "saveToGoogleHandler env req =
           (Responded \<lparr>status = 401, headers = [],
                       sent = Json (JObj [(''error'', JStr ''Not authenticated with Google'')])\<rparr>, [])"
  using assms by (simp add: saveToGoogleHandler_def not_authenticated_def)

theorem export_requires_session_witness:
  "saveToGoogleHandler (sample_google None) \<lparr>cookies = Map.empty, query = Map.empty, body = Some sample_body\<rparr>
     = (Responded \<lparr>status = 401, headers = [],
                   sent = Json (JObj [(''error'', JStr ''Not authenticated with Google'')])\<rparr>, [])"
  using export_requires_session
    [of "\<lparr>cookies = Map.empty, query = Map.empty, body = Some sample_body\<rparr>" "sample_google None"]
  by simp

text \<open>
  Claim C3, as the code has it. The status handler answers \<^verbatim>\<open>isAuthenticated: true\<close> exactly
  when the request carries a \<^verbatim>\<open>google_tokens\<close> cookie with a non-empty value, and
  \<^verbatim>\<open>false\<close> otherwise; the value is never parsed. The last theorem is the request on which
  the claim as stated fails: the cookie \<^verbatim>\<open>not-json\<close> is no JSON text, and the answer
  is \<^verbatim>\<open>true\<close>.
\<close>

theorem status_checks_presence_only:
  "(isAuthenticated (statusHandler req) = Some (JBool True))
     = (\<exists>v. cookies req ''google_tokens'' = Some v \<and> v \<noteq> [])
   \<and> (isAuthenticated (statusHandler req) = Some (JBool False))
     = (cookies req ''google_tokens'' = None \<or> cookies req ''google_tokens'' = Some [])"
  by (cases "cookies req ''google_tokens''") (auto simp: statusHandler_def isAuthenticated_def truthy_def)

theorem status_checks_presence_only_witness:
  "isAuthenticated (statusHandler (sample_export sample_cookie)) = Some (JBool True)
   \<and> isAuthenticated (statusHandler sample_callback) = Some (JBool False)"
  using status_checks_presence_only [of "sample_export sample_cookie"]
    status_checks_presence_only [of sample_callback]
  by (simp add: sample_export_def sample_cookie_def sample_callback_def)

theorem status_true_for_unparseable_cookie:
  "isAuthenticated (statusHandler (sample_export ''not-json'')) = Some (JBool True)
   \<and> \<not> JSON_valid ''not-json''"
  using not_json_invalid
  by (simp add: statusHandler_def isAuthenticated_def truthy_def sample_export_def)

subsection \<open>The session cookie\<close>

lemma below_16:
  assumes "(d::nat) < 16"
  shows "d = 0 \<or> d = 1 \<or> d = 2 \<or> d = 3 \<or> d = 4 \<or> d = 5 \<or> d = 6 \<or> d = 7
      \<or> d = 8 \<or> d = 9 \<or> d = 10 \<or> d = 11 \<or> d = 12 \<or> d = 13 \<or> d = 14 \<or> d = 15"
  using assms by arith

lemma hex_value_upper_hex:
  assumes "d < 16"
  shows "hex_value (upper_hex d) = Some d"
  using below_16 [OF assms]
  by (elim disjE) (simp_all add: upper_hex_def hex_value_def)

lemma upper_hex_safe:
  assumes "d < 16"
  shows "uri_safe (upper_hex d)"
  using below_16 [OF assms]
  by (elim disjE) (simp_all add: upper_hex_def uri_safe_def uri_unreserved_def)

lemma nibbles: "(of_char c :: nat) div 16 < 16" "(of_char c :: nat) mod 16 < 16"
proof -
  have "(of_char c :: nat) < 256" by simp
  then show "(of_char c :: nat) div 16 < 16" by (simp add: less_mult_imp_div_less)
  show "(of_char c :: nat) mod 16 < 16" by simp
qed

lemma decode_encode_char:
  "decodeURIComponent (encode_char c @ rest) = map_option ((#) c) (decodeURIComponent rest)"
proof (cases "uri_unreserved c")
  case True
  then have "c \<noteq> CHR ''%''" by (auto simp: uri_unreserved_def)
  with True show ?thesis by (simp add: encode_char_def)
next
  case False
  then show ?thesis
    by (simp add: encode_char_def hex_value_upper_hex nibbles)
qed

text \<open>Decoding undoes encoding.\<close>

lemma decode_encode: "decodeURIComponent (encodeURIComponent s) = Some s"
  by (induction s) (simp_all add: encodeURIComponent_def decode_encode_char)

lemma encode_char_safe: "list_all uri_safe (encode_char c)"
  by (simp add: encode_char_def uri_safe_def upper_hex_safe [unfolded uri_safe_def] nibbles)

lemma encode_safe: "list_all uri_safe (encodeURIComponent s)"
  by (induction s) (simp_all add: encodeURIComponent_def encode_char_safe)

lemma uri_safe_plain:
  assumes "uri_safe c"
  shows "c \<noteq> CHR '';''" "c \<noteq> CHR ''=''" "c \<noteq> CHR 0x22" "\<not> is_space c"
  using assms by (auto simp: uri_safe_def uri_unreserved_def is_space_def)

lemma split_on_absent: "d \<notin> set s \<Longrightarrow> split_on d s = [s]"
  by (induction s) auto

lemma strip_plain:
  assumes "list_all (\<lambda>c. \<not> is_space c) s"
  shows "strip s = s"
proof -
  have keep: "list_all (\<lambda>c. \<not> is_space c) t \<Longrightarrow> dropWhile is_space t = t" for t
    by (cases t) simp_all
  have "list_all (\<lambda>c. \<not> is_space c) (rev s)"
    using assms by (simp add: list_all_iff)
  with assms show ?thesis
    by (simp add: strip_def keep)
qed

text \<open>The cookie set by a header that opens with \<^verbatim>\<open>google_tokens=\<close> and an encoded value.\<close>

lemma cookie_of_header:
  "cookie_parse (browser_cookie (''google_tokens='' @ encodeURIComponent v @ CHR '';'' # attrs))
     ''google_tokens'' = Some v"
proof -
  let ?e = "encodeURIComponent v"
  have safe: "list_all uri_safe ?e" by (rule encode_safe)
  have no_semi: "\<forall>c\<in>set ?e. c \<noteq> CHR '';''"
    and no_space: "list_all (\<lambda>c. \<not> is_space c) ?e"
    and no_quote: "\<forall>c\<in>set ?e. c \<noteq> CHR 0x22"
    using safe uri_safe_plain by (auto simp: list_all_iff)
  have pair: "browser_cookie (''google_tokens='' @ ?e @ CHR '';'' # attrs) = ''google_tokens='' @ ?e"
    using no_semi by (simp add: browser_cookie_def takeWhile_tail)
  have one: "split_on CHR '';'' (''google_tokens='' @ ?e) = [''google_tokens='' @ ?e]"
    using no_semi by (intro split_on_absent) auto
  have unquoted: "(case ?e of [] \<Rightarrow> ?e | c # r \<Rightarrow> if c = CHR 0x22 then butlast r else ?e) = ?e"
    using no_quote by (cases ?e) auto
  have key: "strip ''google_tokens'' = ''google_tokens''"
    by (simp add: strip_def is_space_def)
  have "cookie_pair (''google_tokens='' @ ?e) = Some (''google_tokens'', v)"
    by (simp add: cookie_pair_def Let_def strip_plain [OF no_space] unquoted tryDecode_def
        decode_encode key [simplified])
  then show ?thesis
    unfolding cookie_parse_def pair one by (simp add: List.map_filter_simps)
qed

text \<open>
  Claim C7. When the code exchange succeeds, the cookie that the callback handler sets,
  sent back by the browser and read by the cookie middleware, is the JSON text of the
  token set, and the status handler answers that request with
  \<^verbatim>\<open>isAuthenticated: true\<close>, whatever the token set is.
\<close>

theorem token_cookie_round_trip:
  assumes "getToken env (query req ''code'') = Inr tokens"
  shows "cookies (follow_up (callbackHandler env req)) ''google_tokens'' = Some (JSON_stringify (JObj tokens))
         \<and> statusHandler (follow_up (callbackHandler env req))
             = \<lparr>status = 200, headers = [], sent = Json (JObj [(''isAuthenticated'', JBool True)])\<rparr>"
proof -
  have "cookies (follow_up (callbackHandler env req)) ''google_tokens'' = Some (JSON_stringify (JObj tokens))"
    using assms
    by (simp add: callbackHandler_def follow_up_def Let_def cookie_of_header [simplified]
        del: JSON_stringify.simps)
  then show ?thesis
    by (simp add: statusHandler_def truthy_def)
qed

theorem token_cookie_round_trip_witness:
  "getToken sample_oauth (query sample_callback ''code'') = Inr sample_tokens
   \<and> statusHandler (follow_up (callbackHandler sample_oauth sample_callback))
       = \<lparr>status = 200, headers = [], sent = Json (JObj [(''isAuthenticated'', JBool True)])\<rparr>"
proof -
  have h: "getToken sample_oauth (query sample_callback ''code'') = Inr sample_tokens"
    by (simp add: sample_oauth_def)
  from token_cookie_round_trip [OF h] h show ?thesis
    by simp
qed

subsection \<open>The export\<close>

lemma sample_cookie_valid: "JSON_valid sample_cookie"
  by code_simp

text \<open>With a session cookie that parses and a body that destructures, the handler's answer
  is that of the \<^verbatim>\<open>try\<close> block.\<close>

lemma handler_runs_export:
  assumes "cookies req ''google_tokens'' = Some tokensStr" and "JSON_valid tokensStr"
    and "body req = Some j" and "j \<noteq> JNull"
  shows "saveToGoogleHandler env req =
           (case export_steps env (Credentials tokensStr) (property j ''imageData'')
                   (property j ''prompt'') (property j ''aspectRatio'') of
              (Inl e, calls) \<Rightarrow> (Responded (failure e), calls)
            | (Inr fileLink, calls) \<Rightarrow> (Responded (success fileLink), calls))"
  using assms JSON_valid_nonempty [of tokensStr]
  by (cases j) (simp_all add: saveToGoogleHandler_def destructure_body_def JSON_parse_def)

lemma base64Data_of_uri:
  assumes "split_on CHR '','' uri = pre # b64 # rest"
  shows "base64Data env (Some (JStr uri)) = Inr b64"
  using assms by (simp add: base64Data_def)

text \<open>
  Claim C1. Take an export whose session cookie parses, whose body carries a data URI
  with a payload after its first comma, and whose upload and listing succeed. When the
  listing holds no spreadsheet (and creating one and writing its header succeed), the
  calls are, in this order: the upload, the listing, one creation of a spreadsheet
  titled \<^verbatim>\<open>Visionary AI Generations\<close> with the one sheet \<^verbatim>\<open>Generations\<close>, one update of
  \<^verbatim>\<open>Generations!A1:D1\<close> with the four headers, and one append of the row
  \<^verbatim>\<open>[timestamp, prompt, aspectRatio, fileLink]\<close> to the new spreadsheet. When the
  listing holds at least one spreadsheet, the calls are the upload, the listing and one
  append of that row to the first listed id: nothing is created and no header is written.
\<close>

theorem export_find_or_create:
  assumes "cookies req ''google_tokens'' = Some tokensStr" and "JSON_valid tokensStr"
    and "body req = Some j" and "property j ''imageData'' = Some (JStr uri)"
    and "split_on CHR '','' uri = pre # b64 # rest"
    and "files_create env (Credentials tokensStr) (upload env b64) = Inr (DriveFile fid fileLink)"
    and "files_list env (Credentials tokensStr) listing = Inr files"
  shows "((files = None \<or> files = Some []) \<longrightarrow>
            spreadsheets_create env (Credentials tokensStr) creation = Inr sid \<longrightarrow>
            values_update env (Credentials tokensStr) (header_row sid) = Inr () \<longrightarrow>
            snd (saveToGoogleHandler env req) =
              [FilesCreate (upload env b64),
               FilesList listing,
               SpreadsheetsCreate \<lparr>title = ''Visionary AI Generations'', sheet_titles = [''Generations'']\<rparr>,
               ValuesUpdate \<lparr>spreadsheetId = sid, range_a1 = ''Generations!A1:D1'',
                             valueInputOption = ''RAW'',
                             rows = [[Some (JStr ''Timestamp''), Some (JStr ''Prompt''),
                                      Some (JStr ''Aspect Ratio''), Some (JStr ''Drive Link'')]]\<rparr>,
               ValuesAppend \<lparr>spreadsheetId = sid, range_a1 = ''Generations!A:D'',
                             valueInputOption = ''RAW'',
                             rows = [[Some (JStr (iso_now env)), property j ''prompt'',
                                      property j ''aspectRatio'', map_option JStr fileLink]]\<rparr>])
         \<and> (files = Some (f # fs) \<longrightarrow>
            snd (saveToGoogleHandler env req) =
              [FilesCreate (upload env b64),
               FilesList listing,
               ValuesAppend \<lparr>spreadsheetId = f, range_a1 = ''Generations!A:D'',
                             valueInputOption = ''RAW'',
                             rows = [[Some (JStr (iso_now env)), property j ''prompt'',
                                      property j ''aspectRatio'', map_option JStr fileLink]]\<rparr>])"
proof -
  have "j \<noteq> JNull"
    using assms(4) by (auto simp: property_def)
  note run = handler_runs_export [OF assms(1,2,3) this, of env]
  have b64: "base64Data env (property j ''imageData'') = Inr b64"
    using assms(4,5) by (simp add: base64Data_of_uri)
  show ?thesis
    unfolding run
    by (cases "values_append env (Credentials tokensStr)
                 (data_row env sid (property j ''prompt'') (property j ''aspectRatio'') fileLink)";
        cases "values_append env (Credentials tokensStr)
                 (data_row env f (property j ''prompt'') (property j ''aspectRatio'') fileLink)")
       (auto simp: export_steps_def b64 assms(6,7) find_or_create_def creation_def header_row_def
          data_row_def Let_def)
qed


theorem export_find_or_create_witness:
  "snd (saveToGoogleHandler (sample_google None) (sample_export sample_cookie)) =
     [FilesCreate (upload (sample_google None) ''iVBORw0KGgo=''),
      FilesList listing,
      SpreadsheetsCreate \<lparr>title = ''Visionary AI Generations'', sheet_titles = [''Generations'']\<rparr>,
      ValuesUpdate \<lparr>spreadsheetId = Some ''sheet-new'', range_a1 = ''Generations!A1:D1'',
                    valueInputOption = ''RAW'',
                    rows = [[Some (JStr ''Timestamp''), Some (JStr ''Prompt''),
                             Some (JStr ''Aspect Ratio''), Some (JStr ''Drive Link'')]]\<rparr>,
      ValuesAppend \<lparr>spreadsheetId = Some ''sheet-new'', range_a1 = ''Generations!A:D'',
                    valueInputOption = ''RAW'',
                    rows = [[Some (JStr ''2023-11-14T22:13:20.000Z''), Some (JStr ''a cat''),
                             Some (JStr ''16:9''),
                             Some (JStr ''https://drive.google.com/file/d/file-1/view'')]]\<rparr>]
   \<and> snd (saveToGoogleHandler (sample_google (Some [Some ''sheet-7'', Some ''sheet-9'']))
            (sample_export sample_cookie)) =
     [FilesCreate (upload (sample_google (Some [Some ''sheet-7'', Some ''sheet-9''])) ''iVBORw0KGgo=''),
      FilesList listing,
      ValuesAppend \<lparr>spreadsheetId = Some ''sheet-7'', range_a1 = ''Generations!A:D'',
                    valueInputOption = ''RAW'',
                    rows = [[Some (JStr ''2023-11-14T22:13:20.000Z''), Some (JStr ''a cat''),
                             Some (JStr ''16:9''),
                             Some (JStr ''https://drive.google.com/file/d/file-1/view'')]]\<rparr>]"
proof -
  have h1: "cookies (sample_export sample_cookie) ''google_tokens'' = Some sample_cookie"
    and h3: "body (sample_export sample_cookie) = Some sample_body"
    by (simp_all add: sample_export_def)
  have h4: "property sample_body ''imageData'' = Some (JStr ''data:image/png;base64,iVBORw0KGgo='')"
    by (simp add: property_def sample_body_def)
  have h5: "split_on CHR '','' ''data:image/png;base64,iVBORw0KGgo=''
              = ''data:image/png;base64'' # ''iVBORw0KGgo='' # []"
    by simp
  have h6: "files_create (sample_google fl) (Credentials sample_cookie)
              (upload (sample_google fl) ''iVBORw0KGgo='')
            = Inr (DriveFile (Some ''file-1'') (Some ''https://drive.google.com/file/d/file-1/view''))"
    and h7: "files_list (sample_google fl) (Credentials sample_cookie) listing = Inr fl" for fl
    by (simp_all add: sample_google_def)
  have cells: "property sample_body ''prompt'' = Some (JStr ''a cat'')"
    "property sample_body ''aspectRatio'' = Some (JStr ''16:9'')"
    by (simp_all add: property_def sample_body_def)
  show ?thesis
    using export_find_or_create [OF h1 sample_cookie_valid h3 h4 h5 h6 h7,
        of None "Some ''sheet-new''"]
      export_find_or_create [OF h1 sample_cookie_valid h3 h4 h5 h6 h7,
        of "Some [Some ''sheet-7'', Some ''sheet-9'']" _ "Some ''sheet-7''" "[Some ''sheet-9'']"]
    by (simp add: cells) (simp add: sample_google_def)
qed

text \<open>
  Claim C5. Take an export whose session cookie parses and whose body destructures.
  Whichever step throws first (reading the payload, the upload, the listing, the
  creation, the header update or the append), the answer is status 500 with the
  message of that error, or \<^verbatim>\<open>Failed to save to Google\<close> when the error has no message or
  an empty one. The calls issued are exactly those up to and including the one that
  threw: nothing follows it, so what the earlier calls did (the uploaded file, the
  created spreadsheet, its header) stays as it is.
\<close>

theorem export_failure_aborts_without_rollback:
  assumes "cookies req ''google_tokens'' = Some tokensStr" and "JSON_valid tokensStr"
    and "body req = Some j" and "j \<noteq> JNull"
  shows "(base64Data env (property j ''imageData'') = Inl e \<longrightarrow>
            saveToGoogleHandler env req = (Responded (failure e), []))
       \<and> (base64Data env (property j ''imageData'') = Inr b64 \<longrightarrow>
          (files_create env (Credentials tokensStr) (upload env b64) = Inl e \<longrightarrow>
             saveToGoogleHandler env req = (Responded (failure e), [FilesCreate (upload env b64)]))
          \<and> (files_create env (Credentials tokensStr) (upload env b64) = Inr d \<longrightarrow>
             (files_list env (Credentials tokensStr) listing = Inl e \<longrightarrow>
                saveToGoogleHandler env req =
                  (Responded (failure e), [FilesCreate (upload env b64), FilesList listing]))
             \<and> (files_list env (Credentials tokensStr) listing = Inr files \<longrightarrow>
                (files = Some (f # fs) \<longrightarrow>
                   values_append env (Credentials tokensStr)
                     (data_row env f (property j ''prompt'') (property j ''aspectRatio'') (webViewLink d)) = Inl e \<longrightarrow>
                   saveToGoogleHandler env req =
                     (Responded (failure e),
                      [FilesCreate (upload env b64), FilesList listing,
                       ValuesAppend (data_row env f (property j ''prompt'') (property j ''aspectRatio'')
                                       (webViewLink d))]))
                \<and> ((files = None \<or> files = Some []) \<longrightarrow>
                   (spreadsheets_create env (Credentials tokensStr) creation = Inl e \<longrightarrow>
                      saveToGoogleHandler env req =
                        (Responded (failure e),
                         [FilesCreate (upload env b64), FilesList listing, SpreadsheetsCreate creation]))
                   \<and> (spreadsheets_create env (Credentials tokensStr) creation = Inr sid \<longrightarrow>
                      (values_update env (Credentials tokensStr) (header_row sid) = Inl e \<longrightarrow>
                         saveToGoogleHandler env req =
                           (Responded (failure e),
                            [FilesCreate (upload env b64), FilesList listing, SpreadsheetsCreate creation,
                             ValuesUpdate (header_row sid)]))
                      \<and> (values_update env (Credentials tokensStr) (header_row sid) = Inr () \<longrightarrow>
                         values_append env (Credentials tokensStr)
                           (data_row env sid (property j ''prompt'') (property j ''aspectRatio'') (webViewLink d)) = Inl e \<longrightarrow>
                         saveToGoogleHandler env req =
                           (Responded (failure e),
                            [FilesCreate (upload env b64), FilesList listing, SpreadsheetsCreate creation,
                             ValuesUpdate (header_row sid),
                             ValuesAppend (data_row env sid (property j ''prompt'')
                                             (property j ''aspectRatio'') (webViewLink d))])))))))
       \<and> failure e =
           \<lparr>status = 500, headers = [],
            sent = Json (JObj [(''error'',
                     JStr (case message e of
                             None \<Rightarrow> ''Failed to save to Google''
                           | Some m \<Rightarrow> if m = [] then ''Failed to save to Google'' else m))])\<rparr>"
  unfolding handler_runs_export [OF assms, of env]
  by (auto simp: export_steps_def find_or_create_def Let_def failure_def or_else_def
      split: option.splits)

theorem export_failure_aborts_without_rollback_witness:
  "saveToGoogleHandler
     ((sample_google None)\<lparr>values_append := (\<lambda>tokens rq. Inl (RequestError (Some ''The caller does not have permission'')))\<rparr>)
     (sample_export sample_cookie)
   = (Responded \<lparr>status = 500, headers = [],
                 sent = Json (JObj [(''error'', JStr ''The caller does not have permission'')])\<rparr>,
      [FilesCreate (upload (sample_google None) ''iVBORw0KGgo=''),
       FilesList listing,
       SpreadsheetsCreate creation,
       ValuesUpdate (header_row (Some ''sheet-new'')),
       ValuesAppend (data_row (sample_google None) (Some ''sheet-new'') (Some (JStr ''a cat''))
                       (Some (JStr ''16:9'')) (Some ''https://drive.google.com/file/d/file-1/view''))])
   \<and> saveToGoogleHandler
       ((sample_google None)\<lparr>files_list := (\<lambda>tokens rq. Inl (RequestError None))\<rparr>)
       (sample_export sample_cookie)
     = (Responded \<lparr>status = 500, headers = [],
                   sent = Json (JObj [(''error'', JStr ''Failed to save to Google'')])\<rparr>,
        [FilesCreate (upload (sample_google None) ''iVBORw0KGgo=''), FilesList listing])"
proof -
  let ?a = "(sample_google None)\<lparr>values_append :=
              (\<lambda>tokens rq. Inl (RequestError (Some ''The caller does not have permission'')))\<rparr>"
  let ?b = "(sample_google None)\<lparr>files_list := (\<lambda>tokens rq. Inl (RequestError None))\<rparr>"
  have h1: "cookies (sample_export sample_cookie) ''google_tokens'' = Some sample_cookie"
    and h3: "body (sample_export sample_cookie) = Some sample_body"
    and h4: "sample_body \<noteq> JNull"
    by (simp_all add: sample_export_def sample_body_def)
  have b64: "base64Data env (property sample_body ''imageData'') = Inr ''iVBORw0KGgo=''" for env
    by (simp add: base64Data_def property_def sample_body_def)
  have cells: "property sample_body ''prompt'' = Some (JStr ''a cat'')"
    "property sample_body ''aspectRatio'' = Some (JStr ''16:9'')"
    by (simp_all add: property_def sample_body_def)
  have up: "upload ?a = upload (sample_google None)" "upload ?b = upload (sample_google None)"
    "data_row ?a = data_row (sample_google None)"
    by (simp_all add: upload_def data_row_def fun_eq_iff)
  have a: "saveToGoogleHandler ?a (sample_export sample_cookie)
           = (Responded (failure (RequestError (Some ''The caller does not have permission''))),
              [FilesCreate (upload (sample_google None) ''iVBORw0KGgo=''),
               FilesList listing,
               SpreadsheetsCreate creation,
               ValuesUpdate (header_row (Some ''sheet-new'')),
               ValuesAppend (data_row (sample_google None) (Some ''sheet-new'') (Some (JStr ''a cat''))
                       (Some (JStr ''16:9'')) (Some ''https://drive.google.com/file/d/file-1/view''))])"
    using export_failure_aborts_without_rollback [OF h1 sample_cookie_valid h3 h4,
        of ?a "RequestError (Some ''The caller does not have permission'')" "''iVBORw0KGgo=''"
           "DriveFile (Some ''file-1'') (Some ''https://drive.google.com/file/d/file-1/view'')"
           None _ _ "Some ''sheet-new''"]
    by (simp add: b64 cells up) (simp add: sample_google_def)
  have b: "saveToGoogleHandler ?b (sample_export sample_cookie)
           = (Responded (failure (RequestError None)),
              [FilesCreate (upload (sample_google None) ''iVBORw0KGgo=''), FilesList listing])"
    using export_failure_aborts_without_rollback [OF h1 sample_cookie_valid h3 h4,
        of ?b "RequestError None" "''iVBORw0KGgo=''"
           "DriveFile (Some ''file-1'') (Some ''https://drive.google.com/file/d/file-1/view'')"]
    by (simp add: b64 cells up) (simp add: sample_google_def)
  show ?thesis
    unfolding a b by (simp add: failure_def or_else_def)
qed

text \<open>
  Claim C4. Not every failure is answered: the destructuring of the body and
  \<^verbatim>\<open>JSON.parse\<close> of the cookie stand before the \<^verbatim>\<open>try\<close>. With a non-empty session cookie, a
  request without a body ends in an uncaught TypeError, and a request whose cookie is
  not a JSON text ends in an uncaught SyntaxError; in both cases no response is
  written and no call is issued. (A body without \<^verbatim>\<open>imageData\<close> is answered with status
  500, as the lemma after the theorems shows.)
\<close>

theorem malformed_session_cookie_is_uncaught:
  assumes "cookies req ''google_tokens'' = Some tokensStr" and "tokensStr \<noteq> []"
  shows "(body req = None \<longrightarrow>
            saveToGoogleHandler env req = (Uncaught (TypeError (error_text env BodyNotAnObject)), []))
       \<and> (body req = Some j \<longrightarrow> j \<noteq> JNull \<longrightarrow> \<not> JSON_valid tokensStr \<longrightarrow>
            saveToGoogleHandler env req = (Uncaught (SyntaxError (error_text env InvalidJson)), []))"
  using assms
  by (cases j) (simp_all add: saveToGoogleHandler_def destructure_body_def JSON_parse_def)

theorem malformed_session_cookie_is_uncaught_witness:
  "saveToGoogleHandler (sample_google None) (sample_export ''not-json'')
     = (Uncaught (SyntaxError ''Unexpected token o in JSON at position 1''), [])
   \<and> saveToGoogleHandler (sample_google None)
        \<lparr>cookies = [''google_tokens'' \<mapsto> sample_cookie], query = Map.empty, body = None\<rparr>
     = (Uncaught (TypeError ''Cannot destructure property imageData of req.body as it is undefined.''), [])"
proof -
  have invalid: "\<not> JSON_valid ''not-json''"
    by code_simp
  have nonempty: "sample_cookie \<noteq> []"
    by (simp add: sample_cookie_def)
  show ?thesis
    using malformed_session_cookie_is_uncaught
        [of "sample_export ''not-json''" "''not-json''" "sample_google None" sample_body]
      malformed_session_cookie_is_uncaught
        [of "\<lparr>cookies = [''google_tokens'' \<mapsto> sample_cookie], query = Map.empty, body = None\<rparr>"
            sample_cookie "sample_google None"]
      invalid nonempty
    by (simp add: sample_export_def sample_body_def sample_google_def)
qed

lemma missing_image_data_is_caught:
  assumes "cookies req ''google_tokens'' = Some tokensStr" and "JSON_valid tokensStr"
    and "body req = Some (JObj kvs)" and "map_of kvs ''imageData'' = None"
  shows "saveToGoogleHandler env req = (Responded (failure (TypeError (error_text env SplitNotCallable))), [])"
  unfolding handler_runs_export [OF assms(1,2,3), of env, simplified]
  using assms(4) by (simp add: export_steps_def base64Data_def property_def)

text \<open>The rejection of \<^verbatim>\<open>not-json\<close> does not depend on the bound of the recogniser.\<close>

lemma not_json_never_parses: "json_value n ''not-json'' = None"
  by (cases n) (simp_all add: skip_ws_def is_json_ws_def json_number_def is_digit_def)

end
